theory Spec2Isabelle
  imports Complex_Main "HOL-Library.Log_Nat" "HOL-Library.Sublist"
begin

section \<open>Python numbers\<close>

text \<open>
  The scorer of \<^verbatim>\<open>main.py\<close> mixes three kinds of numbers: unbounded integers, binary
  floating point (\<^verbatim>\<open>req * 0.7\<close>, \<^verbatim>\<open>matched / total * 50\<close>) and \<^verbatim>\<open>Decimal\<close>
  (the salary columns). A finite double is modelled by the rational number it denotes, and every
  float operation rounds the exact result to the nearest double, ties to the even significand,
  as IEEE 754 binary64 prescribes: 53 significant bits, the smallest quantum being
  \<open>2 powi (- 1074)\<close>. Overflow to infinity is not modelled: no operand here reaches
  \<open>2 ^ 1024\<close> (the integer columns are 32-bit, the skill ratio is at most 1).
\<close>

type_synonym double = rat

definition ilog2 :: "rat \<Rightarrow> int" where
  \<comment> \<open>the binary exponent of a positive rational: \<open>2 powi e \<le> x < 2 powi (e + 1)\<close>\<close>
  "ilog2 x = (case quotient_of x of (a, b) \<Rightarrow>
     (let e0 = bitlen a - bitlen b in if 2 powi e0 \<le> x then e0 else e0 - 1))"

definition round_half_even :: "rat \<Rightarrow> int" where
  "round_half_even x =
     (let f = \<lfloor>x\<rfloor>; r = x - of_int f
      in if r < 1 / 2 then f
         else if 1 / 2 < r then f + 1
         else if even f then f else f + 1)"

definition quantum :: "rat \<Rightarrow> int" where
  \<comment> \<open>exponent of the unit in the last place of the doubles around \<open>a\<close> (subnormals included)\<close>
  "quantum a = max (ilog2 a - 52) (- 1074)"

definition round_double :: "rat \<Rightarrow> double" where
  "round_double x =
     (if x = 0 then 0
      else let a = \<bar>x\<bar>; q = quantum a
           in sgn x * (of_int (round_half_even (a / 2 powi q)) * 2 powi q))"

definition py_float_of_int :: "int \<Rightarrow> double" where
  \<comment> \<open>the implicit conversion of an \<^verbatim>\<open>int\<close> operand in \<^verbatim>\<open>int * float\<close>\<close>
  "py_float_of_int n = round_double (of_int n)"

definition py_float_mul :: "double \<Rightarrow> double \<Rightarrow> double" where
  "py_float_mul a b = round_double (a * b)"

definition py_int_truediv :: "int \<Rightarrow> int \<Rightarrow> double" where
  \<comment> \<open>\<^verbatim>\<open>a / b\<close> on two ints: the correctly rounded quotient (the caller guards \<open>b > 0\<close>)\<close>
  "py_int_truediv a b = round_double (of_int a / of_int b)"

definition py_int_of_float :: "double \<Rightarrow> int" where
  \<comment> \<open>\<^verbatim>\<open>int(x)\<close>: truncation towards zero\<close>
  "py_int_of_float x = (if 0 \<le> x then \<lfloor>x\<rfloor> else \<lceil>x\<rceil>)"

definition float_0_7 :: double where
  \<comment> \<open>the literal \<^verbatim>\<open>0.7\<close>\<close>
  "float_0_7 = round_double (7 / 10)"

definition float_0_5 :: double where
  \<comment> \<open>the literal \<^verbatim>\<open>0.5\<close>\<close>
  "float_0_5 = round_double (1 / 2)"

text \<open>
  \<^verbatim>\<open>Numeric(10, 2)\<close> columns are read back as \<^verbatim>\<open>Decimal\<close>. Their comparisons are exact, and
  the product with \<^verbatim>\<open>Decimal('1.2')\<close> has at most 12 significant digits, below the 28 digits
  of the default context, so it is exact as well: a decimal is modelled by its rational value.
\<close>

type_synonym decimal = rat

section \<open>Python strings\<close>

definition lower_char :: "char \<Rightarrow> char" where
  "lower_char c = (let n = (of_char c :: nat) in if 65 \<le> n \<and> n \<le> 90 then char_of (n + 32) else c)"

definition lower :: "string \<Rightarrow> string" where
  \<comment> \<open>\<^verbatim>\<open>str.lower()\<close> on ASCII text\<close>
  "lower s = map lower_char s"

definition digit_char :: "nat \<Rightarrow> char" where
  "digit_char d = char_of (48 + d)"

fun str_nat :: "nat \<Rightarrow> string" where
  "str_nat n = (if n < 10 then [digit_char n] else str_nat (n div 10) @ [digit_char (n mod 10)])"

definition str_int :: "int \<Rightarrow> string" where
  \<comment> \<open>\<^verbatim>\<open>str(i)\<close>, also what an f-string does to an int\<close>
  "str_int i = (if i < 0 then CHR ''-'' # str_nat (nat (- i)) else str_nat (nat i))"

section \<open>The tables the matching engine reads\<close>

text \<open>
  One record per SQLAlchemy model, with the columns the engine reads (and those the claims say
  it ignores). Nullable text and numeric columns are options; the integer columns with
  \<^verbatim>\<open>default=0\<close> and the boolean ones with \<^verbatim>\<open>default=True\<close> always hold a value, since every
  writer of the application stores one.
\<close>

datatype importance = Required | Preferred | NiceToHave

datatype proficiency = Beginner | Intermediate | Advanced | Expert

record user =
  u_id :: int
  u_is_active :: bool

record company =
  co_id :: int
  co_company_name :: string

record candidate_profile =
  cp_id :: int
  cp_user_id :: int
  cp_experience_years :: int
  cp_location :: "string option"
  cp_salary_expectation :: "decimal option"

record job_posting =
  jp_id :: int
  jp_company_id :: int
  jp_title :: string
  jp_location :: "string option"
  jp_experience_required :: int
  jp_salary_min :: "decimal option"
  jp_salary_max :: "decimal option"
  jp_is_active :: bool

record job_application =
  ja_job_id :: int
  ja_candidate_id :: int

record candidate_skill =
  cs_candidate_id :: int
  cs_skill_id :: int
  cs_proficiency_level :: proficiency
  cs_years_experience :: int

record job_required_skill =
  jrs_job_id :: int
  jrs_skill_id :: int
  jrs_importance :: importance
  jrs_min_years_experience :: int

record database =
  users :: "user list"
  companies :: "company list"
  candidate_profiles :: "candidate_profile list"
  job_postings :: "job_posting list"
  job_applications :: "job_application list"
  candidate_skills :: "candidate_skill list"
  job_required_skills :: "job_required_skill list"

definition query_get :: "('r \<Rightarrow> int) \<Rightarrow> 'r list \<Rightarrow> int \<Rightarrow> 'r option" where
  \<comment> \<open>\<^verbatim>\<open>Model.query.get(pk)\<close>: the row with that primary key, or \<^verbatim>\<open>None\<close>\<close>
  "query_get pk rows i = find (\<lambda>r. pk r = i) rows"

section \<open>\<^verbatim>\<open>calculate_job_match_score\<close>\<close>

definition experience_match :: "candidate_profile \<Rightarrow> job_posting \<Rightarrow> int" where
  "experience_match candidate job =
     (if cp_experience_years candidate \<ge> jp_experience_required job then 30
      else if of_int (cp_experience_years candidate)
                \<ge> py_float_mul (py_float_of_int (jp_experience_required job)) float_0_7 then 20
      else if of_int (cp_experience_years candidate)
                \<ge> py_float_mul (py_float_of_int (jp_experience_required job)) float_0_5 then 10
      else 0)"

definition importance_weight :: "importance \<Rightarrow> int" where
  "importance_weight i = (if i = Required then 3 else if i = Preferred then 2 else 1)"

fun skill_weights :: "job_required_skill list \<Rightarrow> int list \<Rightarrow> int \<times> int \<Rightarrow> int \<times> int" where
  "skill_weights [] candidate_skill_ids (matched_skills, total_weight) =
     (matched_skills, total_weight)"
| "skill_weights (req_skill # rest) candidate_skill_ids (matched_skills, total_weight) =
     (let weight = importance_weight (jrs_importance req_skill)
      in skill_weights rest candidate_skill_ids
           (if jrs_skill_id req_skill \<in> set candidate_skill_ids
            then matched_skills + weight else matched_skills,
            total_weight + weight))"

definition skills_match :: "job_required_skill list \<Rightarrow> int list \<Rightarrow> int" where
  "skills_match required_skills candidate_skill_ids =
     (if required_skills \<noteq> [] then
        (case skill_weights required_skills candidate_skill_ids (0, 0) of
           (matched_skills, total_weight) \<Rightarrow>
             if total_weight > 0
             then py_int_of_float
                    (py_float_mul (py_int_truediv matched_skills total_weight) (py_float_of_int 50))
             else 0)
      else 25)"

definition truthy_str :: "string option \<Rightarrow> bool" where
  \<comment> \<open>Python truth value of an optional string: \<^verbatim>\<open>None\<close> and \<^verbatim>\<open>''\<close> are false\<close>
  "truthy_str s = (case s of None \<Rightarrow> False | Some t \<Rightarrow> t \<noteq> [])"

definition truthy_decimal :: "decimal option \<Rightarrow> bool" where
  \<comment> \<open>Python truth value of an optional \<^verbatim>\<open>Decimal\<close>: \<^verbatim>\<open>None\<close> and zero are false\<close>
  "truthy_decimal d = (case d of None \<Rightarrow> False | Some v \<Rightarrow> v \<noteq> 0)"

definition location_match :: "candidate_profile \<Rightarrow> job_posting \<Rightarrow> int" where
  "location_match candidate job =
     (case (cp_location candidate, jp_location job) of
        (Some cl, Some jl) \<Rightarrow>
          if truthy_str (Some cl) \<and> truthy_str (Some jl) then
            (if sublist (lower cl) (lower jl) \<or> sublist (lower jl) (lower cl) then 10 else 5)
          else 0
      | _ \<Rightarrow> 0)"

definition salary_match :: "candidate_profile \<Rightarrow> job_posting \<Rightarrow> int" where
  "salary_match candidate job =
     (case (cp_salary_expectation candidate, jp_salary_min job, jp_salary_max job) of
        (Some expectation, Some salary_min, Some salary_max) \<Rightarrow>
          if truthy_decimal (Some expectation) \<and> truthy_decimal (Some salary_min)
             \<and> truthy_decimal (Some salary_max) then
            (let multiplier = (12 / 10 :: decimal)
             in if salary_min \<le> expectation \<and> expectation \<le> salary_max then 10
                else if expectation \<le> salary_max * multiplier then 5
                else 0)
          else 0
      | _ \<Rightarrow> 0)"

definition required_skills_of :: "database \<Rightarrow> int \<Rightarrow> job_required_skill list" where
  \<comment> \<open>\<^verbatim>\<open>JobRequiredSkill.query.filter_by(job_id=job_id).all()\<close>\<close>
  "required_skills_of db job_id = filter (\<lambda>r. jrs_job_id r = job_id) (job_required_skills db)"

definition candidate_skill_ids_of :: "database \<Rightarrow> int \<Rightarrow> int list" where
  \<comment> \<open>\<^verbatim>\<open>[cs.skill_id for cs in CandidateSkill.query.filter_by(candidate_id=candidate_id).all()]\<close>\<close>
  "candidate_skill_ids_of db candidate_id =
     map cs_skill_id (filter (\<lambda>cs. cs_candidate_id cs = candidate_id) (candidate_skills db))"

definition calculate_job_match_score :: "database \<Rightarrow> int \<Rightarrow> int \<Rightarrow> int" where
  "calculate_job_match_score db candidate_id job_id =
     (case query_get cp_id (candidate_profiles db) candidate_id of
        None \<Rightarrow> 0
      | Some candidate \<Rightarrow>
          (case query_get jp_id (job_postings db) job_id of
             None \<Rightarrow> 0
           | Some job \<Rightarrow>
               (let score = 0;
                    max_score = 100;
                    score = score + experience_match candidate job;
                    required_skills = required_skills_of db job_id;
                    candidate_skill_ids = candidate_skill_ids_of db candidate_id;
                    score = score + skills_match required_skills candidate_skill_ids;
                    score = score + location_match candidate job;
                    score = score + salary_match candidate job
                in min score max_score)))"

section \<open>\<^verbatim>\<open>get_job_recommendations\<close>\<close>

record job_match =
  jm_job :: job_posting
  jm_company :: company
  jm_match_score :: int

definition applied_job_ids_of :: "database \<Rightarrow> int \<Rightarrow> int list" where
  \<comment> \<open>the subquery \<^verbatim>\<open>JobApplication.job_id ... filter_by(candidate_id=candidate_id)\<close>\<close>
  "applied_job_ids_of db candidate_id =
     map ja_job_id (filter (\<lambda>a. ja_candidate_id a = candidate_id) (job_applications db))"

definition available_jobs_of :: "database \<Rightarrow> int \<Rightarrow> (job_posting \<times> company) list" where
  \<comment> \<open>the join of \<^verbatim>\<open>JobPosting\<close> with \<^verbatim>\<open>Company\<close>, active and not applied to\<close>
  "available_jobs_of db candidate_id =
     [(job, company).
        job \<leftarrow> job_postings db,
        company \<leftarrow> companies db,
        jp_company_id job = co_id company,
        jp_is_active job,
        jp_id job \<notin> set (applied_job_ids_of db candidate_id)]"

fun collect_job_matches :: "database \<Rightarrow> int \<Rightarrow> (job_posting \<times> company) list \<Rightarrow> job_match list" where
  "collect_job_matches db candidate_id [] = []"
| "collect_job_matches db candidate_id ((job, company) # rest) =
     (let match_score = calculate_job_match_score db candidate_id (jp_id job)
      in if match_score > 30
         then \<lparr>jm_job = job, jm_company = company, jm_match_score = match_score\<rparr>
                # collect_job_matches db candidate_id rest
         else collect_job_matches db candidate_id rest)"

definition sort_by_match_score :: "job_match list \<Rightarrow> job_match list" where
  \<comment> \<open>\<^verbatim>\<open>sort(key=..., reverse=True)\<close>: descending, equal scores keep their order\<close>
  "sort_by_match_score job_matches = sort_key (\<lambda>m. - jm_match_score m) job_matches"

definition get_job_recommendations :: "database \<Rightarrow> int \<Rightarrow> job_match list" where
  "get_job_recommendations db candidate_id =
     (case query_get cp_id (candidate_profiles db) candidate_id of
        None \<Rightarrow> []
      | Some candidate \<Rightarrow>
          (let available_jobs = available_jobs_of db candidate_id;
               job_matches = collect_job_matches db candidate_id available_jobs
           in take 10 (sort_by_match_score job_matches)))"

section \<open>\<^verbatim>\<open>create_notification\<close> and \<^verbatim>\<open>notify_matching_candidates\<close>\<close>

text \<open>
  The notification table and the application log are the state these two functions change.
  A commit may raise; which ones do is not decided by the engine, so the outcome of the
  \<open>n\<close>-th commit is a parameter: \<open>None\<close> for success, \<open>Some e\<close> for an exception whose
  text is \<open>e\<close>. \<^verbatim>\<open>create_notification\<close> catches every exception, rolls the insert back and
  logs, so it always returns.
\<close>

record notification =
  n_user_id :: int
  n_title :: string
  n_message :: string
  n_notification_type :: string
  n_action_url :: "string option"

datatype log_record = LogInfo string | LogError string

record sink =
  notifications :: "notification list"
  logger :: "log_record list"
  commits :: nat

definition create_notification ::
  "(nat \<Rightarrow> string option) \<Rightarrow> sink \<Rightarrow> int \<Rightarrow> string \<Rightarrow> string \<Rightarrow> string \<Rightarrow> string option \<Rightarrow> sink" where
  "create_notification commit_error st user_id title message notification_type action_url =
     (let notification = \<lparr>n_user_id = user_id, n_title = title, n_message = message,
                           n_notification_type = notification_type, n_action_url = action_url\<rparr>
      in case commit_error (commits st) of
           None \<Rightarrow>
             st\<lparr>notifications := notifications st @ [notification],
                logger := logger st @ [LogInfo (''Notification created for user '' @ str_int user_id
                                           @ '': '' @ title)],
                commits := commits st + 1\<rparr>
         | Some e \<Rightarrow>
             st\<lparr>logger := logger st @ [LogError (''Error creating notification: '' @ e)],
                commits := commits st + 1\<rparr>)"

definition url_for_job_details :: "int \<Rightarrow> string" where
  \<comment> \<open>\<^verbatim>\<open>url_for('job_details', job_id=job_id)\<close> with the route \<^verbatim>\<open>/job/<int:job_id>\<close>\<close>
  "url_for_job_details job_id = ''/job/'' @ str_int job_id"

definition match_message :: "job_posting \<Rightarrow> int \<Rightarrow> string" where
  "match_message job match_score =
     ''A new job '' @ [CHR 0x22] @ jp_title job @ [CHR 0x22] @ '' matches your profile with ''
       @ str_int match_score @ ''% compatibility!''"

definition active_candidates :: "database \<Rightarrow> candidate_profile list" where
  \<comment> \<open>\<^verbatim>\<open>CandidateProfile.query.join(User).filter(User.is_active == True).all()\<close>\<close>
  "active_candidates db =
     [candidate.
        candidate \<leftarrow> candidate_profiles db,
        u \<leftarrow> users db,
        cp_user_id candidate = u_id u,
        u_is_active u]"

fun notify_candidates ::
  "(nat \<Rightarrow> string option) \<Rightarrow> database \<Rightarrow> job_posting \<Rightarrow> int \<Rightarrow> sink \<Rightarrow> candidate_profile list \<Rightarrow> sink" where
  "notify_candidates commit_error db job job_id st [] = st"
| "notify_candidates commit_error db job job_id st (candidate # rest) =
     (let match_score = calculate_job_match_score db (cp_id candidate) job_id
      in if match_score \<ge> 70
         then notify_candidates commit_error db job job_id
                (create_notification commit_error st
                   (cp_user_id candidate)
                   ''New Job Match!''
                   (match_message job match_score)
                   ''job_match''
                   (Some (url_for_job_details job_id)))
                rest
         else notify_candidates commit_error db job job_id st rest)"

definition notify_matching_candidates ::
  "(nat \<Rightarrow> string option) \<Rightarrow> database \<Rightarrow> sink \<Rightarrow> int \<Rightarrow> sink" where
  "notify_matching_candidates commit_error db st job_id =
     (case query_get jp_id (job_postings db) job_id of
        None \<Rightarrow> st
      | Some job \<Rightarrow> notify_candidates commit_error db job job_id st (active_candidates db))"

section \<open>The specification's words\<close>

text \<open>
  The component rules as the specification states them, in exact arithmetic and with
  \<open>None\<close> as the only absent value, to be compared with the functions above.
\<close>

definition skill_entry :: "job_required_skill \<Rightarrow> int \<times> importance" where
  "skill_entry r = (jrs_skill_id r, jrs_importance r)"

fun spec_weight :: "importance \<Rightarrow> int" where
  "spec_weight Required = 3"
| "spec_weight Preferred = 2"
| "spec_weight NiceToHave = 1"

definition total_weight_of :: "(int \<times> importance) list \<Rightarrow> int" where
  "total_weight_of entries = sum_list (map (\<lambda>(s, i). spec_weight i) entries)"

definition matched_weight_of :: "(int \<times> importance) list \<Rightarrow> int set \<Rightarrow> int" where
  "matched_weight_of entries held =
     sum_list (map (\<lambda>(s, i). spec_weight i) (filter (\<lambda>(s, i). s \<in> held) entries))"

definition experience_spec :: "int \<Rightarrow> int \<Rightarrow> int" where
  "experience_spec have req =
     (if (of_int req :: rat) \<le> of_int have then 30
      else if 7 / 10 * (of_int req :: rat) \<le> of_int have then 20
      else if 1 / 2 * (of_int req :: rat) \<le> of_int have then 10
      else 0)"

definition location_spec :: "string option \<Rightarrow> string option \<Rightarrow> int" where
  "location_spec candidate_location job_location =
     (case (candidate_location, job_location) of
        (Some cl, Some jl) \<Rightarrow>
          if sublist (lower cl) (lower jl) \<or> sublist (lower jl) (lower cl) then 10 else 5
      | _ \<Rightarrow> 0)"

definition salary_spec :: "decimal option \<Rightarrow> decimal option \<Rightarrow> decimal option \<Rightarrow> int" where
  "salary_spec expectation salary_min salary_max =
     (case (expectation, salary_min, salary_max) of
        (Some e, Some lo, Some hi) \<Rightarrow>
          if lo \<le> e \<and> e \<le> hi then 10
          else if e \<le> hi * (12 / 10) then 5
          else 0
      | _ \<Rightarrow> 0)"

definition match_notification ::
  "database \<Rightarrow> job_posting \<Rightarrow> int \<Rightarrow> candidate_profile \<Rightarrow> notification" where
  \<comment> \<open>the event a matching candidate is sent\<close>
  "match_notification db job job_id candidate =
     \<lparr>n_user_id = cp_user_id candidate,
      n_title = ''New Job Match!'',
      n_message = match_message job (calculate_job_match_score db (cp_id candidate) job_id),
      n_notification_type = ''job_match'',
      n_action_url = Some (url_for_job_details job_id)\<rparr>"

definition matching_candidates :: "database \<Rightarrow> int \<Rightarrow> candidate_profile list" where
  "matching_candidates db job_id =
     filter (\<lambda>candidate. 70 \<le> calculate_job_match_score db (cp_id candidate) job_id)
       (active_candidates db)"

fun emit_all :: "(nat \<Rightarrow> string option) \<Rightarrow> sink \<Rightarrow> notification list \<Rightarrow> sink" where
  \<comment> \<open>one call of \<open>create_notification\<close> per event, in order\<close>
  "emit_all commit_error st [] = st"
| "emit_all commit_error st (n # ns) =
     emit_all commit_error
       (create_notification commit_error st (n_user_id n) (n_title n) (n_message n)
          (n_notification_type n) (n_action_url n))
       ns"

definition log_of_commit :: "(nat \<Rightarrow> string option) \<Rightarrow> nat \<Rightarrow> notification \<Rightarrow> log_record" where
  \<comment> \<open>what the \<open>k\<close>-th commit leaves in the log when it carries event \<open>n\<close>\<close>
  "log_of_commit commit_error k n =
     (case commit_error k of
        None \<Rightarrow>
          LogInfo (''Notification created for user '' @ str_int (n_user_id n) @ '': '' @ n_title n)
      | Some e \<Rightarrow> LogError (''Error creating notification: '' @ e))"

section \<open>Example data\<close>

definition example_c1 :: candidate_profile where
  "example_c1 = \<lparr>cp_id = 1, cp_user_id = 11, cp_experience_years = 5,
                  cp_location = Some ''Berlin'', cp_salary_expectation = Some 60000\<rparr>"

definition example_c2 :: candidate_profile where
  "example_c2 = \<lparr>cp_id = 2, cp_user_id = 12, cp_experience_years = 0,
                  cp_location = Some ''Paris'', cp_salary_expectation = None\<rparr>"

definition example_c3 :: candidate_profile where
  "example_c3 = \<lparr>cp_id = 3, cp_user_id = 13, cp_experience_years = 5,
                  cp_location = Some ''Berlin'', cp_salary_expectation = Some 60000\<rparr>"

definition example_c4 :: candidate_profile where
  "example_c4 = \<lparr>cp_id = 4, cp_user_id = 14, cp_experience_years = 6,
                  cp_location = Some ''berlin'', cp_salary_expectation = Some 65000\<rparr>"

definition example_j7 :: job_posting where
  "example_j7 = \<lparr>jp_id = 7, jp_company_id = 3, jp_title = ''Dev'',
                  jp_location = Some ''Berlin, Germany'', jp_experience_required = 5,
                  jp_salary_min = Some 50000, jp_salary_max = Some 70000, jp_is_active = True\<rparr>"

definition example_j10 :: job_posting where
  "example_j10 = \<lparr>jp_id = 10, jp_company_id = 3, jp_title = ''Clerk'',
                   jp_location = None, jp_experience_required = 5,
                   jp_salary_min = None, jp_salary_max = None, jp_is_active = True\<rparr>"

definition example_j20 :: job_posting where
  "example_j20 = \<lparr>jp_id = 20, jp_company_id = 3, jp_title = ''Analyst'',
                   jp_location = Some ''Paris'', jp_experience_required = 3,
                   jp_salary_min = None, jp_salary_max = None, jp_is_active = True\<rparr>"

definition example_db :: database where
  "example_db =
     \<lparr>users = [\<lparr>u_id = 11, u_is_active = True\<rparr>, \<lparr>u_id = 12, u_is_active = True\<rparr>,
               \<lparr>u_id = 13, u_is_active = False\<rparr>, \<lparr>u_id = 14, u_is_active = True\<rparr>],
      companies = [\<lparr>co_id = 3, co_company_name = ''Acme''\<rparr>],
      candidate_profiles = [example_c1, example_c2, example_c3, example_c4],
      job_postings =
        [example_j10, example_j7,
         example_j7\<lparr>jp_id := 8, jp_is_active := False\<rparr>,
         example_j7\<lparr>jp_id := 9\<rparr>,
         example_j20,
         example_j20\<lparr>jp_id := 21\<rparr>],
      job_applications = [\<lparr>ja_job_id = 9, ja_candidate_id = 1\<rparr>],
      candidate_skills =
        [\<lparr>cs_candidate_id = 1, cs_skill_id = 4, cs_proficiency_level = Expert,
           cs_years_experience = 2\<rparr>,
         \<lparr>cs_candidate_id = 3, cs_skill_id = 4, cs_proficiency_level = Beginner,
           cs_years_experience = 0\<rparr>,
         \<lparr>cs_candidate_id = 4, cs_skill_id = 4, cs_proficiency_level = Advanced,
           cs_years_experience = 6\<rparr>,
         \<lparr>cs_candidate_id = 2, cs_skill_id = 5, cs_proficiency_level = Intermediate,
           cs_years_experience = 1\<rparr>],
      job_required_skills =
        [\<lparr>jrs_job_id = 7, jrs_skill_id = 4, jrs_importance = Required,
           jrs_min_years_experience = 0\<rparr>,
         \<lparr>jrs_job_id = 8, jrs_skill_id = 4, jrs_importance = Required,
           jrs_min_years_experience = 0\<rparr>,
         \<lparr>jrs_job_id = 9, jrs_skill_id = 4, jrs_importance = Required,
           jrs_min_years_experience = 0\<rparr>,
         \<lparr>jrs_job_id = 20, jrs_skill_id = 5, jrs_importance = Preferred,
           jrs_min_years_experience = 1\<rparr>,
         \<lparr>jrs_job_id = 20, jrs_skill_id = 4, jrs_importance = Required,
           jrs_min_years_experience = 3\<rparr>,
         \<lparr>jrs_job_id = 21, jrs_skill_id = 5, jrs_importance = Preferred,
           jrs_min_years_experience = 1\<rparr>,
         \<lparr>jrs_job_id = 21, jrs_skill_id = 4, jrs_importance = NiceToHave,
           jrs_min_years_experience = 3\<rparr>]\<rparr>"

definition empty_sink :: sink where
  "empty_sink = \<lparr>notifications = [], logger = [], commits = 0\<rparr>"

definition first_commit_fails :: "nat \<Rightarrow> string option" where
  "first_commit_fails k = (if k = 0 then Some ''connection lost'' else None)"

definition slip_required_skills :: "job_required_skill list" where
  \<comment> \<open>sixteen \<open>Required\<close> skills and one \<open>Preferred\<close>: total weight 50\<close>
  "slip_required_skills =
     map (\<lambda>s. \<lparr>jrs_job_id = 1, jrs_skill_id = s, jrs_importance = Required,
                 jrs_min_years_experience = 0\<rparr>) [1..16]
     @ [\<lparr>jrs_job_id = 1, jrs_skill_id = 17, jrs_importance = Preferred,
          jrs_min_years_experience = 0\<rparr>]"

definition slip_candidate_skill_ids :: "int list" where
  \<comment> \<open>nine of the \<open>Required\<close> skills and the \<open>Preferred\<close> one: matched weight 29\<close>
  "slip_candidate_skill_ids = [1..9] @ [17]"


definition zero_min_job :: job_posting where
  "zero_min_job = example_j7\<lparr>jp_salary_min := Some 0\<rparr>"

definition blank_location_job :: job_posting where
  "blank_location_job = example_j7\<lparr>jp_location := Some []\<rparr>"

definition zero_max_job :: job_posting where
  "zero_max_job = example_j7\<lparr>jp_salary_min := Some (- 10), jp_salary_max := Some 0\<rparr>"

definition modest_candidate :: candidate_profile where
  "modest_candidate = example_c1\<lparr>cp_salary_expectation := Some 50\<rparr>"

definition low_range_job :: job_posting where
  "low_range_job = example_j7\<lparr>jp_salary_min := Some 0, jp_salary_max := Some 100\<rparr>"

section \<open>Rounding to a double\<close>

lemma powi2_pos: "(0::rat) < 2 powi e"
  by (simp add: zero_less_power_int)

lemma powi2_add: "(2::rat) powi (a + b) = 2 powi a * 2 powi b"
  by (simp add: power_int_add)

lemma powi2_mono: "a \<le> b \<Longrightarrow> (2::rat) powi a \<le> 2 powi b"
  by (simp add: power_int_increasing)

lemma powi2_less_cancel: "(2::rat) powi a < 2 powi b \<Longrightarrow> a < b"
proof (rule ccontr)
  assume h: "(2::rat) powi a < 2 powi b" and "\<not> a < b"
  then have "b \<le> a" by simp
  then have "(2::rat) powi b \<le> 2 powi a" by (rule powi2_mono)
  with h show False by simp
qed

lemma bitlen_rat_bounds:
  assumes "0 < a"
  shows "(2::rat) powi (bitlen a - 1) \<le> of_int a" and "(of_int a :: rat) < 2 powi (bitlen a)"
proof -
  have b1: "1 \<le> bitlen a" using assms bitlen_eq_zero_iff[of a] bitlen_nonneg[of a] by linarith
  have lo: "2 ^ nat (bitlen a - 1) \<le> a" and hi: "a < 2 ^ nat (bitlen a)"
    using bitlen_bounds[OF assms] by auto
  have "(2::rat) powi (bitlen a - 1) = of_int (2 ^ nat (bitlen a - 1))"
    using b1 by (simp add: power_int_nonneg_exp)
  also have "\<dots> \<le> of_int a" using lo by (simp only: of_int_le_iff)
  finally show "(2::rat) powi (bitlen a - 1) \<le> of_int a" .
  have "(of_int a :: rat) < of_int (2 ^ nat (bitlen a))" using hi by (simp only: of_int_less_iff)
  also have "\<dots> = 2 powi (bitlen a)" using b1 by (simp add: power_int_nonneg_exp)
  finally show "(of_int a :: rat) < 2 powi (bitlen a)" .
qed

lemma ilog2_bounds:
  assumes "0 < x"
  shows "2 powi (ilog2 x) \<le> x" and "x < 2 powi (ilog2 x + 1)"
proof -
  obtain a b where q: "quotient_of x = (a, b)" by force
  have b: "0 < b" using quotient_of_denom_pos[OF q] .
  have x: "x = of_int a / of_int b" using quotient_of_div[OF q] .
  have a: "0 < a" using assms b x by (simp add: zero_less_divide_iff)
  define e0 where "e0 = bitlen a - bitlen b"
  have bpos: "(0::rat) < of_int b" using b by simp
  have "2 powi (e0 - 1) * of_int b < 2 powi (e0 - 1) * (2::rat) powi (bitlen b)"
    using bitlen_rat_bounds(2)[OF b] powi2_pos[of "e0 - 1"] by simp
  also have "\<dots> = 2 powi (bitlen a - 1)"
    unfolding e0_def powi2_add[symmetric] by simp
  also have "\<dots> \<le> of_int a" using bitlen_rat_bounds(1)[OF a] .
  finally have lo: "2 powi (e0 - 1) < x"
    unfolding x using bpos by (simp add: pos_less_divide_eq)
  have "(of_int a :: rat) < 2 powi (bitlen a)" using bitlen_rat_bounds(2)[OF a] .
  also have "\<dots> = 2 powi (e0 + 1) * 2 powi (bitlen b - 1)"
    unfolding e0_def powi2_add[symmetric] by simp
  also have "\<dots> \<le> 2 powi (e0 + 1) * of_int b"
    using bitlen_rat_bounds(1)[OF b] powi2_pos[of "e0 + 1"] by simp
  finally have hi: "x < 2 powi (e0 + 1)"
    unfolding x using bpos by (simp add: pos_divide_less_eq)
  have il: "ilog2 x = (if 2 powi e0 \<le> x then e0 else e0 - 1)"
    by (simp add: ilog2_def q e0_def Let_def)
  show "2 powi (ilog2 x) \<le> x" using lo by (simp add: il)
  show "x < 2 powi (ilog2 x + 1)" using hi by (simp add: il)
qed

lemma ilog2_unique:
  assumes "2 powi e \<le> x" "x < 2 powi (e + 1)"
  shows "ilog2 x = e"
proof -
  have xp: "0 < x" using powi2_pos[of e] assms(1) by (rule less_le_trans)
  have "(2::rat) powi e < 2 powi (ilog2 x + 1)" using assms(1) ilog2_bounds(2)[OF xp] by simp
  then have 1: "e < ilog2 x + 1" by (rule powi2_less_cancel)
  have "(2::rat) powi (ilog2 x) < 2 powi (e + 1)" using assms(2) ilog2_bounds(1)[OF xp] by simp
  then have 2: "ilog2 x < e + 1" by (rule powi2_less_cancel)
  from 1 2 show ?thesis by simp
qed

lemma ilog2_mono:
  assumes "0 < x" "x \<le> y"
  shows "ilog2 x \<le> ilog2 y"
proof -
  have yp: "0 < y" using assms by simp
  have "(2::rat) powi (ilog2 x) < 2 powi (ilog2 y + 1)"
    using ilog2_bounds(1)[OF assms(1)] ilog2_bounds(2)[OF yp] assms(2) by simp
  then have "ilog2 x < ilog2 y + 1" by (rule powi2_less_cancel)
  then show ?thesis by simp
qed

lemma ilog2_less:
  assumes "0 < x" "x < 2 powi e"
  shows "ilog2 x < e"
proof -
  have "(2::rat) powi (ilog2 x) < 2 powi e" using ilog2_bounds(1)[OF assms(1)] assms(2) by simp
  then show ?thesis by (rule powi2_less_cancel)
qed

lemma round_half_even_of_int: "round_half_even (of_int n) = n"
  by (simp add: round_half_even_def)

lemma round_half_even_range: "\<lfloor>x\<rfloor> \<le> round_half_even x" "round_half_even x \<le> \<lfloor>x\<rfloor> + 1"
  by (simp_all add: round_half_even_def Let_def)

lemma round_half_even_mono:
  assumes "x \<le> y"
  shows "round_half_even x \<le> round_half_even y"
proof (cases "\<lfloor>x\<rfloor> = \<lfloor>y\<rfloor>")
  case True
  then show ?thesis using assms by (auto simp add: round_half_even_def Let_def)
next
  case False
  then have "\<lfloor>x\<rfloor> < \<lfloor>y\<rfloor>" using floor_mono[OF assms] by simp
  then show ?thesis
    using round_half_even_range(2)[of x] round_half_even_range(1)[of y] by linarith
qed


lemma round_half_even_le: "x \<le> of_int n \<Longrightarrow> round_half_even x \<le> n"
  using round_half_even_mono[of x "of_int n"] by (simp add: round_half_even_of_int)

lemma round_half_even_ge: "of_int n \<le> x \<Longrightarrow> n \<le> round_half_even x"
  using round_half_even_mono[of "of_int n" x] by (simp add: round_half_even_of_int)

lemma round_double_pos_eq:
  "0 < x \<Longrightarrow> round_double x = of_int (round_half_even (x / 2 powi (quantum x))) * 2 powi (quantum x)"
  by (simp add: round_double_def Let_def)

lemma round_double_neg: "round_double (- x) = - round_double x"
  by (simp add: round_double_def Let_def sgn_minus)

lemma round_double_zero: "round_double 0 = 0"
  by (simp add: round_double_def)

lemma round_double_pos_nonneg:
  assumes "0 < x"
  shows "0 \<le> round_double x"
proof -
  have "(0::rat) \<le> x / 2 powi (quantum x)" using assms powi2_pos[of "quantum x"] by simp
  then have "0 \<le> round_half_even (x / 2 powi (quantum x))"
    using round_half_even_ge[of 0 "x / 2 powi (quantum x)"] by simp
  then show ?thesis
    using powi2_pos[of "quantum x"] by (simp add: round_double_pos_eq[OF assms])
qed

lemma quantum_mono: "0 < x \<Longrightarrow> x \<le> y \<Longrightarrow> quantum x \<le> quantum y"
  using ilog2_mono[of x y] by (simp add: quantum_def)

lemma round_double_upper:
  assumes "0 < x"
  shows "round_double x \<le> 2 powi (quantum x + 53)"
proof -
  let ?q = "quantum x"
  have "ilog2 x + 1 \<le> ?q + 53" by (simp add: quantum_def)
  then have "(2::rat) powi (ilog2 x + 1) \<le> 2 powi (?q + 53)" by (rule powi2_mono)
  then have "x \<le> 2 powi 53 * 2 powi ?q"
    using ilog2_bounds(2)[OF assms] by (simp add: powi2_add mult.commute)
  then have "x / 2 powi ?q \<le> of_int (2 ^ 53)"
    using powi2_pos[of ?q] by (simp add: pos_divide_le_eq)
  then have "round_half_even (x / 2 powi ?q) \<le> 2 ^ 53" by (rule round_half_even_le)
  then have "(of_int (round_half_even (x / 2 powi ?q)) :: rat) \<le> of_int (2 ^ 53)"
    by (simp only: of_int_le_iff)
  then have "of_int (round_half_even (x / 2 powi ?q)) * 2 powi ?q \<le> (2::rat) powi 53 * 2 powi ?q"
    using powi2_pos[of ?q] by simp
  then show ?thesis by (simp add: round_double_pos_eq[OF assms] powi2_add mult.commute)
qed

lemma round_double_lower:
  assumes "0 < y" "- 1074 < quantum y"
  shows "2 powi (quantum y + 52) \<le> round_double y"
proof -
  let ?q = "quantum y"
  have q: "?q + 52 = ilog2 y" using assms(2) by (simp add: quantum_def max_def split: if_splits)
  have "2 powi 52 * 2 powi ?q \<le> y"
    using ilog2_bounds(1)[OF assms(1)] by (simp add: q[symmetric] powi2_add mult.commute)
  then have "of_int (2 ^ 52) \<le> y / 2 powi ?q"
    using powi2_pos[of ?q] by (simp add: pos_le_divide_eq)
  then have "2 ^ 52 \<le> round_half_even (y / 2 powi ?q)" by (rule round_half_even_ge)
  then have "(of_int (2 ^ 52) :: rat) \<le> of_int (round_half_even (y / 2 powi ?q))"
    by (simp only: of_int_le_iff)
  then have "(2::rat) powi 52 * 2 powi ?q \<le> of_int (round_half_even (y / 2 powi ?q)) * 2 powi ?q"
    using powi2_pos[of ?q] by simp
  then show ?thesis by (simp add: round_double_pos_eq[OF assms(1)] powi2_add mult.commute)
qed

lemma round_double_mono_pos:
  assumes "0 < x" "x \<le> y"
  shows "round_double x \<le> round_double y"
proof -
  have yp: "0 < y" using assms by simp
  have qm: "quantum x \<le> quantum y" using quantum_mono[OF assms] .
  show ?thesis
  proof (cases "quantum x = quantum y")
    case True
    have "x / 2 powi (quantum y) \<le> y / 2 powi (quantum y)"
      using assms(2) powi2_pos[of "quantum y"] by (simp add: divide_right_mono)
    then have "round_half_even (x / 2 powi (quantum y)) \<le> round_half_even (y / 2 powi (quantum y))"
      by (rule round_half_even_mono)
    then have "(of_int (round_half_even (x / 2 powi (quantum y))) :: rat)
                 \<le> of_int (round_half_even (y / 2 powi (quantum y)))"
      by (simp only: of_int_le_iff)
    then show ?thesis
      using powi2_pos[of "quantum y"]
      by (simp add: round_double_pos_eq[OF assms(1)] round_double_pos_eq[OF yp] True)
  next
    case False
    then have lt: "quantum x < quantum y" using qm by simp
    have "- 1074 \<le> quantum x" by (simp add: quantum_def)
    then have ql: "- 1074 < quantum y" using lt by simp
    have "quantum x + 53 \<le> quantum y + 52" using lt by simp
    then have "(2::rat) powi (quantum x + 53) \<le> 2 powi (quantum y + 52)" by (rule powi2_mono)
    then show ?thesis
      using round_double_upper[OF assms(1)] round_double_lower[OF yp ql] by linarith
  qed
qed

lemma round_double_mono:
  assumes "x \<le> y"
  shows "round_double x \<le> round_double y"
proof -
  consider "0 < x" | "x \<le> 0" "0 \<le> y" | "y < 0" using assms by linarith
  then show ?thesis
  proof cases
    case 1
    then show ?thesis using assms by (rule round_double_mono_pos)
  next
    case 2
    have a: "round_double x \<le> 0"
    proof (cases "x = 0")
      case True then show ?thesis by (simp add: round_double_zero)
    next
      case False
      then have "0 < - x" using 2 by simp
      then have "0 \<le> round_double (- x)" by (rule round_double_pos_nonneg)
      then show ?thesis by (simp add: round_double_neg)
    qed
    have b: "0 \<le> round_double y"
    proof (cases "y = 0")
      case True then show ?thesis by (simp add: round_double_zero)
    next
      case False
      then have "0 < y" using 2 by simp
      then show ?thesis by (rule round_double_pos_nonneg)
    qed
    from a b show ?thesis by simp
  next
    case 3
    then have "0 < - y" "- y \<le> - x" using assms by simp_all
    then have "round_double (- y) \<le> round_double (- x)" by (rule round_double_mono_pos)
    then show ?thesis by (simp add: round_double_neg)
  qed
qed

lemma round_double_exact_pos:
  assumes "0 < n" "n < 2 ^ 53" "- 1074 \<le> k"
  shows "round_double (of_int n * 2 powi k) = of_int n * 2 powi k"
proof -
  define x :: rat where "x = of_int n * 2 powi k"
  define q where "q = quantum x"
  have xp: "0 < x" using assms(1) powi2_pos[of k] by (simp add: x_def)
  have "(of_int n :: rat) < of_int (2 ^ 53)" using assms(2) by (simp only: of_int_less_iff)
  then have "x < 2 powi 53 * 2 powi k" using powi2_pos[of k] by (simp add: x_def)
  then have "x < 2 powi (k + 53)" by (simp add: powi2_add mult.commute)
  then have "ilog2 x < k + 53" using xp by (intro ilog2_less)
  then have qk: "q \<le> k" using assms(3) by (simp add: quantum_def q_def)
  define d where "d = nat (k - q)"
  have k: "k = q + int d" using qk by (simp add: d_def)
  have "(2::rat) powi (q + int d) = 2 powi (int d) * 2 powi q"
    by (simp add: powi2_add mult.commute)
  then have pk: "(2::rat) powi k = 2 ^ d * 2 powi q" by (simp add: power_int_of_nat k)
  have xq: "x = of_int (n * 2 ^ d) * 2 powi q" by (simp add: x_def pk)
  have "x / 2 powi q = of_int (n * 2 ^ d)"
    using powi2_pos[of q] by (simp add: xq)
  then have "round_half_even (x / 2 powi q) = n * 2 ^ d"
    by (simp only: round_half_even_of_int)
  then have "round_double x = of_int (n * 2 ^ d) * 2 powi q"
    by (simp only: round_double_pos_eq[OF xp] q_def[symmetric])
  then have "round_double x = x" by (simp only: xq[symmetric])
  then show ?thesis by (simp only: x_def)
qed

lemma round_double_of_int:
  assumes "\<bar>n\<bar> < 2 ^ 53"
  shows "round_double (of_int n) = of_int n"
proof -
  consider "n = 0" | "0 < n" | "n < 0" by linarith
  then show ?thesis
  proof cases
    case 1 then show ?thesis by (simp add: round_double_zero)
  next
    case 2
    then show ?thesis using round_double_exact_pos[of n 0] assms by simp
  next
    case 3
    then have "round_double (of_int (- n) * 2 powi 0) = of_int (- n) * 2 powi 0"
      using assms by (intro round_double_exact_pos) simp_all
    then have "round_double (- of_int n) = - of_int n" by simp
    then show ?thesis by (simp only: round_double_neg neg_equal_iff_equal)
  qed
qed

lemma py_float_of_int_exact: "\<bar>n\<bar> < 2 ^ 53 \<Longrightarrow> py_float_of_int n = of_int n"
  by (simp add: py_float_of_int_def round_double_of_int)

lemma round_double_nonneg: "0 \<le> x \<Longrightarrow> 0 \<le> round_double x"
  using round_double_mono[of 0 x] by (simp add: round_double_zero)

lemma round_double_le_int:
  assumes "x \<le> of_int n" "\<bar>n\<bar> < 2 ^ 53"
  shows "round_double x \<le> of_int n"
  using round_double_mono[OF assms(1)] round_double_of_int[OF assms(2)] by simp

lemma ratio_points_range:
  assumes "0 \<le> m" "m \<le> t" "0 < t"
  shows "0 \<le> py_int_of_float (py_float_mul (py_int_truediv m t) (py_float_of_int 50))"
    and "py_int_of_float (py_float_mul (py_int_truediv m t) (py_float_of_int 50)) \<le> 50"
proof -
  define x where "x = py_int_truediv m t"
  define y where "y = py_float_mul x (py_float_of_int 50)"
  have r0: "(0::rat) \<le> of_int m / of_int t" using assms by simp
  have r1: "(of_int m / of_int t :: rat) \<le> of_int 1" using assms by simp
  have x0: "0 \<le> x" unfolding x_def py_int_truediv_def using r0 by (rule round_double_nonneg)
  have x1: "x \<le> 1" unfolding x_def py_int_truediv_def
    using round_double_le_int[OF r1] by simp
  have f50: "py_float_of_int 50 = 50" using py_float_of_int_exact[of 50] by simp
  have p0: "0 \<le> x * 50" using x0 by simp
  have p1: "x * 50 \<le> of_int 50" using x1 by simp
  have y0: "0 \<le> y" unfolding y_def py_float_mul_def f50 using p0 by (rule round_double_nonneg)
  have y1: "y \<le> 50" unfolding y_def py_float_mul_def f50
    using round_double_le_int[OF p1] by simp
  show "0 \<le> py_int_of_float (py_float_mul (py_int_truediv m t) (py_float_of_int 50))"
    using y0 by (simp add: py_int_of_float_def x_def[symmetric] y_def[symmetric])
  have "\<lfloor>y\<rfloor> \<le> 50" using y1 by (simp add: floor_le_iff)
  then show "py_int_of_float (py_float_mul (py_int_truediv m t) (py_float_of_int 50)) \<le> 50"
    using y0 by (simp add: py_int_of_float_def x_def[symmetric] y_def[symmetric])
qed

lemma py_int_of_float_mono: "0 \<le> x \<Longrightarrow> x \<le> y \<Longrightarrow> py_int_of_float x \<le> py_int_of_float y"
  by (simp add: py_int_of_float_def floor_mono)

section \<open>The score and its components\<close>

lemma importance_weight_spec: "importance_weight i = spec_weight i"
  by (cases i) (simp_all add: importance_weight_def)

lemma spec_weight_pos: "0 < spec_weight i"
  by (cases i) simp_all

lemma skill_weights_sums:
  "skill_weights rs ids (m, t) =
     (m + matched_weight_of (map skill_entry rs) (set ids),
      t + total_weight_of (map skill_entry rs))"
  by (induction rs arbitrary: m t)
     (simp_all add: Let_def matched_weight_of_def total_weight_of_def skill_entry_def
        importance_weight_spec)

lemma total_weight_of_pos: "entries \<noteq> [] \<Longrightarrow> 0 < total_weight_of entries"
proof (induction entries)
  case Nil
  then show ?case by simp
next
  case (Cons e entries)
  obtain s i where e: "e = (s, i)" by (cases e)
  have "0 \<le> total_weight_of entries"
  proof (cases "entries = []")
    case True then show ?thesis by (simp add: total_weight_of_def)
  next
    case False then show ?thesis using Cons.IH by simp
  qed
  then show ?case using spec_weight_pos[of i] by (simp add: total_weight_of_def e)
qed

lemma matched_weight_of_nonneg: "0 \<le> matched_weight_of entries held"
proof (induction entries)
  case Nil
  then show ?case by (simp add: matched_weight_of_def)
next
  case (Cons e entries)
  obtain s i where e: "e = (s, i)" by (cases e)
  show ?case using Cons spec_weight_pos[of i] by (simp add: matched_weight_of_def e)
qed

lemma matched_weight_of_le_total: "matched_weight_of entries held \<le> total_weight_of entries"
proof (induction entries)
  case Nil
  then show ?case by (simp add: matched_weight_of_def total_weight_of_def)
next
  case (Cons e entries)
  obtain s i where e: "e = (s, i)" by (cases e)
  show ?case using Cons spec_weight_pos[of i]
    by (simp add: matched_weight_of_def total_weight_of_def e)
qed

lemma skills_match_unfold:
  "skills_match rs ids =
     (if rs = [] then 25
      else py_int_of_float
             (py_float_mul
                (py_int_truediv (matched_weight_of (map skill_entry rs) (set ids))
                   (total_weight_of (map skill_entry rs)))
                (py_float_of_int 50)))"
proof (cases "rs = []")
  case True
  then show ?thesis by (simp add: skills_match_def)
next
  case False
  then have "0 < total_weight_of (map skill_entry rs)" by (intro total_weight_of_pos) simp
  then show ?thesis using False by (simp add: skills_match_def skill_weights_sums)
qed

lemma skills_match_range: "0 \<le> skills_match rs ids" "skills_match rs ids \<le> 50"
proof -
  have "0 \<le> skills_match rs ids \<and> skills_match rs ids \<le> 50"
  proof (cases "rs = []")
    case True
    then show ?thesis by (simp add: skills_match_unfold)
  next
    case False
    then have t: "0 < total_weight_of (map skill_entry rs)" by (intro total_weight_of_pos) simp
    show ?thesis
      using ratio_points_range[OF matched_weight_of_nonneg matched_weight_of_le_total t, of "set ids"]
        False
      by (simp add: skills_match_unfold)
  qed
  then show "0 \<le> skills_match rs ids" "skills_match rs ids \<le> 50" by simp_all
qed

lemma experience_match_range: "0 \<le> experience_match c j" "experience_match c j \<le> 30"
  by (simp_all add: experience_match_def)

lemma location_match_range: "0 \<le> location_match c j" "location_match c j \<le> 10"
  by (simp_all add: location_match_def split: option.splits)

lemma salary_match_range: "0 \<le> salary_match c j" "salary_match c j \<le> 10"
  by (simp_all add: salary_match_def Let_def split: option.splits)

lemma score_found:
  assumes "query_get cp_id (candidate_profiles db) candidate_id = Some candidate"
      and "query_get jp_id (job_postings db) job_id = Some job"
  shows "calculate_job_match_score db candidate_id job_id =
           min (experience_match candidate job
                + skills_match (required_skills_of db job_id) (candidate_skill_ids_of db candidate_id)
                + location_match candidate job
                + salary_match candidate job) 100"
  using assms by (simp add: calculate_job_match_score_def Let_def)

lemma score_range:
  "0 \<le> calculate_job_match_score db candidate_id job_id"
  "calculate_job_match_score db candidate_id job_id \<le> 100"
proof -
  have "0 \<le> calculate_job_match_score db candidate_id job_id
        \<and> calculate_job_match_score db candidate_id job_id \<le> 100"
  proof (cases "query_get cp_id (candidate_profiles db) candidate_id")
    case None
    then show ?thesis by (simp add: calculate_job_match_score_def)
  next
    case (Some candidate)
    note c = this
    show ?thesis
    proof (cases "query_get jp_id (job_postings db) job_id")
      case None
      then show ?thesis using c by (simp add: calculate_job_match_score_def)
    next
      case (Some job)
      show ?thesis
        using experience_match_range(1)[of candidate job]
          skills_match_range(1)[of "required_skills_of db job_id" "candidate_skill_ids_of db candidate_id"]
          location_match_range(1)[of candidate job] salary_match_range(1)[of candidate job]
        by (simp add: score_found[OF c Some])
    qed
  qed
  then show "0 \<le> calculate_job_match_score db candidate_id job_id"
    "calculate_job_match_score db candidate_id job_id \<le> 100" by simp_all
qed

text \<open>
  C1. For every candidate id and job id the match score is an integer between 0 and 100; when
  both ids resolve it is the minimum of 100 and the sum of the experience, skills, location and
  salary components, and when one does not resolve it is 0.
\<close>

theorem match_score_bounded_sum:
  "0 \<le> calculate_job_match_score db candidate_id job_id
   \<and> calculate_job_match_score db candidate_id job_id \<le> 100
   \<and> (case (query_get cp_id (candidate_profiles db) candidate_id,
             query_get jp_id (job_postings db) job_id) of
        (Some candidate, Some job) \<Rightarrow>
          calculate_job_match_score db candidate_id job_id =
            min 100 (experience_match candidate job
                     + skills_match (required_skills_of db job_id)
                         (candidate_skill_ids_of db candidate_id)
                     + location_match candidate job
                     + salary_match candidate job)
      | _ \<Rightarrow> calculate_job_match_score db candidate_id job_id = 0)"
proof (intro conjI)
  show "0 \<le> calculate_job_match_score db candidate_id job_id" by (rule score_range(1))
  show "calculate_job_match_score db candidate_id job_id \<le> 100" by (rule score_range(2))
  show "case (query_get cp_id (candidate_profiles db) candidate_id,
             query_get jp_id (job_postings db) job_id) of
        (Some candidate, Some job) \<Rightarrow>
          calculate_job_match_score db candidate_id job_id =
            min 100 (experience_match candidate job
                     + skills_match (required_skills_of db job_id)
                         (candidate_skill_ids_of db candidate_id)
                     + location_match candidate job
                     + salary_match candidate job)
      | _ \<Rightarrow> calculate_job_match_score db candidate_id job_id = 0"
    by (simp add: calculate_job_match_score_def Let_def min.commute split: option.splits)
qed

theorem match_score_bounded_sum_witness:
  "calculate_job_match_score example_db 1 7 = 100
   \<and> calculate_job_match_score example_db 1 7 =
       min 100 (experience_match example_c1 example_j7
                + skills_match (required_skills_of example_db 7) (candidate_skill_ids_of example_db 1)
                + location_match example_c1 example_j7
                + salary_match example_c1 example_j7)
   \<and> experience_match example_c1 example_j7 = 30
   \<and> skills_match (required_skills_of example_db 7) (candidate_skill_ids_of example_db 1) = 50
   \<and> location_match example_c1 example_j7 = 10
   \<and> salary_match example_c1 example_j7 = 10
   \<and> calculate_job_match_score example_db 2 7 = 5
   \<and> calculate_job_match_score example_db 99 7 = 0"
proof -
  have c: "query_get cp_id (candidate_profiles example_db) 1 = Some example_c1" by code_simp
  have j: "query_get jp_id (job_postings example_db) 7 = Some example_j7" by code_simp
  have s: "calculate_job_match_score example_db 1 7 =
       min 100 (experience_match example_c1 example_j7
                + skills_match (required_skills_of example_db 7) (candidate_skill_ids_of example_db 1)
                + location_match example_c1 example_j7
                + salary_match example_c1 example_j7)"
    using match_score_bounded_sum[of example_db 1 7] by (simp add: c j)
  have e: "experience_match example_c1 example_j7 = 30" by code_simp
  have k: "skills_match (required_skills_of example_db 7) (candidate_skill_ids_of example_db 1) = 50"
    by code_simp
  have l: "location_match example_c1 example_j7 = 10" by code_simp
  have m: "salary_match example_c1 example_j7 = 10" by code_simp
  have a: "calculate_job_match_score example_db 2 7 = 5" by code_simp
  have b: "calculate_job_match_score example_db 99 7 = 0" by code_simp
  have "calculate_job_match_score example_db 1 7 = 100" using s by (simp add: e k l m)
  then show ?thesis using s e k l m a b by simp
qed

section \<open>Skills and experience\<close>

text \<open>
  C2. With no required skill the skills component is 25, and the loop sums the weights
  3, 2, 1 over all required skills and over those whose id the candidate holds. The scaled ratio
  is then computed in binary floating point and truncated, which is not always
  \<open>\<lfloor>matchedWeight / totalWeight * 50\<rfloor>\<close>: for matched weight 29 of 50 the product is
  \<open>28.999999999999996\<close> and the component is 28, not 29.
\<close>

theorem skills_match_float_slip:
  "skill_weights slip_required_skills slip_candidate_skill_ids (0, 0) = (29, 50)
   \<and> matched_weight_of (map skill_entry slip_required_skills) (set slip_candidate_skill_ids) = 29
   \<and> total_weight_of (map skill_entry slip_required_skills) = 50
   \<and> \<lfloor>(29 :: rat) / 50 * 50\<rfloor> = 29
   \<and> py_int_truediv 29 50 = 5224175567749775 / 9007199254740992
   \<and> py_float_mul (py_int_truediv 29 50) (py_float_of_int 50) = 8162774324609023 / 281474976710656
   \<and> skills_match slip_required_skills slip_candidate_skill_ids = 28"
proof (intro conjI)
  show "skill_weights slip_required_skills slip_candidate_skill_ids (0, 0) = (29, 50)"
    by code_simp
  show "matched_weight_of (map skill_entry slip_required_skills) (set slip_candidate_skill_ids) = 29"
    by code_simp
  show "total_weight_of (map skill_entry slip_required_skills) = 50"
    by code_simp
  show "\<lfloor>(29 :: rat) / 50 * 50\<rfloor> = 29" by simp
  show "py_int_truediv 29 50 = 5224175567749775 / 9007199254740992" by code_simp
  show "py_float_mul (py_int_truediv 29 50) (py_float_of_int 50)
          = 8162774324609023 / 281474976710656" by code_simp
  show "skills_match slip_required_skills slip_candidate_skill_ids = 28" by code_simp
qed

lemma float_0_7_value: "float_0_7 = 3152519739159347 / 4503599627370496"
  by code_simp

lemma float_0_5_value: "float_0_5 = 1 / 2"
  by code_simp

lemma powi2_minus4: "(2::rat) powi (- 4) = 1 / 16"
  by code_simp

lemma powi2_minus1: "(2::rat) powi (- 1) = 1 / 2"
  by code_simp

lemma seventy_percent_exact:
  assumes "0 \<le> req" "req < 2 ^ 31"
  shows "py_float_mul (py_float_of_int req) float_0_7 \<le> of_int have
           \<longleftrightarrow> 7 / 10 * (of_int req :: rat) \<le> of_int have"
proof -
  define x :: rat where "x = of_int req * (3152519739159347 / 4503599627370496)"
  have fr: "py_float_of_int req = of_int req"
    using assms by (intro py_float_of_int_exact) simp
  have prod: "py_float_mul (py_float_of_int req) float_0_7 = round_double x"
    by (simp add: py_float_mul_def fr float_0_7_value x_def)
  have r0: "(0::rat) \<le> of_int req" using assms(1) by simp
  have r1: "(of_int req :: rat) \<le> 2147483647"
  proof -
    have "req \<le> 2147483647" using assms(2) by simp
    then have "(of_int req :: rat) \<le> of_int 2147483647" by (simp only: of_int_le_iff)
    then show ?thesis by simp
  qed
  have x0: "0 \<le> x" using r0 by (simp add: x_def)
  show ?thesis
  proof
    assume "7 / 10 * (of_int req :: rat) \<le> of_int have"
    then have h: "x \<le> of_int have" using r0 by (simp add: x_def)
    show "py_float_mul (py_float_of_int req) float_0_7 \<le> of_int have"
    proof (cases "req \<le> have")
      case True
      have "x \<le> of_int req" using r0 by (simp add: x_def)
      then have "round_double x \<le> of_int req"
        using assms by (intro round_double_le_int) simp_all
      also have "\<dots> \<le> of_int have" using True by simp
      finally show ?thesis by (simp add: prod)
    next
      case False
      have "(0::rat) \<le> of_int have" using x0 h by simp
      then have "0 \<le> have" by simp
      then have "\<bar>have\<bar> < 2 ^ 53" using False assms(2) by simp
      then show ?thesis using round_double_le_int[OF h] by (simp add: prod)
    qed
  next
    assume le: "py_float_mul (py_float_of_int req) float_0_7 \<le> of_int have"
    show "7 / 10 * (of_int req :: rat) \<le> of_int have"
    proof (rule ccontr)
      assume "\<not> 7 / 10 * (of_int req :: rat) \<le> of_int have"
      then have "(of_int (10 * have) :: rat) < of_int (7 * req)" by simp
      then have "10 * have < 7 * req" by (simp only: of_int_less_iff)
      then have i: "10 * have + 1 \<le> 7 * req" by simp
      have "(of_int (10 * have + 1) :: rat) \<le> of_int (7 * req)" using i by (simp only: of_int_le_iff)
      then have q: "10 * (of_int have :: rat) + 1 \<le> 7 * of_int req" by simp
      have "(of_int have :: rat) < round_double x"
      proof (cases "0 \<le> have")
        case False
        then have "(of_int have :: rat) < 0" by simp
        then show ?thesis using round_double_nonneg[OF x0] by simp
      next
        case True
        define L :: rat where "L = of_int (16 * have + 1) * 2 powi (- 4)"
        have hb: "have < 2 ^ 31" using i assms by simp
        have "round_double L = L" unfolding L_def
          using True hb by (intro round_double_exact_pos) simp_all
        moreover have Lv: "L = of_int have + 1 / 16" by (simp add: L_def powi2_minus4)
        moreover have "L \<le> x" using q r1 by (simp add: Lv x_def)
        ultimately have "of_int have + 1 / 16 \<le> round_double x"
          using round_double_mono[of L x] by simp
        then show ?thesis by simp
      qed
      then show False using le by (simp add: prod)
    qed
  qed
qed

lemma fifty_percent_exact:
  assumes "0 \<le> req" "req < 2 ^ 31"
  shows "py_float_mul (py_float_of_int req) float_0_5 = 1 / 2 * of_int req"
proof (cases "req = 0")
  case True
  then show ?thesis by (simp add: py_float_mul_def py_float_of_int_def round_double_zero)
next
  case False
  have fr: "py_float_of_int req = of_int req"
    using assms by (intro py_float_of_int_exact) simp
  have "round_double (of_int req * 2 powi (- 1)) = of_int req * 2 powi (- 1)"
    using assms False by (intro round_double_exact_pos) simp_all
  then show ?thesis by (simp add: py_float_mul_def fr float_0_5_value powi2_minus1)
qed

text \<open>
  C6. For a candidate with \<open>have \<ge> 0\<close> years and a job requiring \<open>req \<ge> 0\<close> years (a 32-bit
  integer column), the experience component is 30 when \<open>have \<ge> req\<close>, else 20 when
  \<open>have \<ge> 0.7 \<sqdot> req\<close>, else 10 when \<open>have \<ge> 0.5 \<sqdot> req\<close>, else 0, the two thresholds read as
  exact rationals although the code multiplies in binary floating point; for \<open>req = 0\<close> it is 30.
\<close>

theorem experience_match_exact:
  assumes "0 \<le> cp_experience_years candidate"
      and "0 \<le> jp_experience_required job"
      and "jp_experience_required job < 2 ^ 31"
  shows "experience_match candidate job
           = experience_spec (cp_experience_years candidate) (jp_experience_required job)
         \<and> (jp_experience_required job = 0 \<longrightarrow> experience_match candidate job = 30)"
  using assms
  by (simp add: experience_match_def experience_spec_def seventy_percent_exact fifty_percent_exact)

theorem experience_match_exact_witness:
  "experience_match (example_c1\<lparr>cp_experience_years := 7\<rparr>) (example_j7\<lparr>jp_experience_required := 10\<rparr>) = 20
   \<and> experience_spec 7 10 = 20
   \<and> experience_match (example_c1\<lparr>cp_experience_years := 6\<rparr>) (example_j7\<lparr>jp_experience_required := 10\<rparr>) = 10
   \<and> experience_match example_c2 (example_j7\<lparr>jp_experience_required := 0\<rparr>) = 30"
proof -
  have a: "experience_match (example_c1\<lparr>cp_experience_years := 7\<rparr>) (example_j7\<lparr>jp_experience_required := 10\<rparr>)
           = experience_spec 7 10"
    using experience_match_exact[of "example_c1\<lparr>cp_experience_years := 7\<rparr>"
                                    "example_j7\<lparr>jp_experience_required := 10\<rparr>"]
    by simp
  have b: "experience_match (example_c1\<lparr>cp_experience_years := 6\<rparr>) (example_j7\<lparr>jp_experience_required := 10\<rparr>)
           = experience_spec 6 10"
    using experience_match_exact[of "example_c1\<lparr>cp_experience_years := 6\<rparr>"
                                    "example_j7\<lparr>jp_experience_required := 10\<rparr>"]
    by simp
  have c: "experience_match example_c2 (example_j7\<lparr>jp_experience_required := 0\<rparr>) = 30"
    using experience_match_exact[of example_c2 "example_j7\<lparr>jp_experience_required := 0\<rparr>"]
    by (simp add: example_c2_def)
  have s7: "experience_spec 7 10 = 20" by (simp add: experience_spec_def)
  have s6: "experience_spec 6 10 = 10" by (simp add: experience_spec_def)
  show ?thesis using a b c s7 s6 by simp
qed

section \<open>Importance tags\<close>

lemma ratio_points_mono:
  assumes "0 \<le> m" "0 < t2" "t2 \<le> t1"
  shows "py_int_of_float (py_float_mul (py_int_truediv m t1) (py_float_of_int 50))
           \<le> py_int_of_float (py_float_mul (py_int_truediv m t2) (py_float_of_int 50))"
proof -
  have q: "(of_int m / of_int t1 :: rat) \<le> of_int m / of_int t2"
    using assms by (intro frac_le) simp_all
  have q0: "(0::rat) \<le> of_int m / of_int t1" using assms by simp
  have a: "py_int_truediv m t1 \<le> py_int_truediv m t2"
    unfolding py_int_truediv_def using q by (rule round_double_mono)
  have a0: "0 \<le> py_int_truediv m t1"
    unfolding py_int_truediv_def using q0 by (rule round_double_nonneg)
  have f50: "py_float_of_int 50 = 50" using py_float_of_int_exact[of 50] by simp
  have p: "py_int_truediv m t1 * 50 \<le> py_int_truediv m t2 * 50" using a by simp
  have p0: "0 \<le> py_int_truediv m t1 * 50" using a0 by simp
  have b: "py_float_mul (py_int_truediv m t1) (py_float_of_int 50)
             \<le> py_float_mul (py_int_truediv m t2) (py_float_of_int 50)"
    unfolding py_float_mul_def f50 using p by (rule round_double_mono)
  have b0: "0 \<le> py_float_mul (py_int_truediv m t1) (py_float_of_int 50)"
    unfolding py_float_mul_def f50 using p0 by (rule round_double_nonneg)
  show ?thesis using b0 b by (rule py_int_of_float_mono)
qed

lemma retag_weights:
  assumes "s \<notin> held"
  shows "matched_weight_of (pre @ [(s, Required)] @ post) held
           = matched_weight_of (pre @ [(s, NiceToHave)] @ post) held"
    and "total_weight_of (pre @ [(s, Required)] @ post)
           = total_weight_of (pre @ [(s, NiceToHave)] @ post) + 2"
  using assms by (simp_all add: matched_weight_of_def total_weight_of_def)

lemma skills_match_retag:
  assumes "map skill_entry rs_a = pre @ [(s, Required)] @ post"
      and "map skill_entry rs_b = pre @ [(s, NiceToHave)] @ post"
      and "s \<notin> set ids"
  shows "skills_match rs_a ids \<le> skills_match rs_b ids"
proof -
  have na: "rs_a \<noteq> []" using assms(1) by auto
  have nb: "rs_b \<noteq> []" using assms(2) by auto
  have tb: "0 < total_weight_of (map skill_entry rs_b)" using nb by (intro total_weight_of_pos) simp
  have m: "matched_weight_of (map skill_entry rs_a) (set ids)
             = matched_weight_of (map skill_entry rs_b) (set ids)"
    by (simp only: assms(1,2) retag_weights(1)[OF assms(3)])
  have t: "total_weight_of (map skill_entry rs_a) = total_weight_of (map skill_entry rs_b) + 2"
    by (simp only: assms(1,2) retag_weights(2)[OF assms(3)])
  have le: "total_weight_of (map skill_entry rs_b) \<le> total_weight_of (map skill_entry rs_a)"
    using t by simp
  show ?thesis
    using ratio_points_mono[OF matched_weight_of_nonneg[of "map skill_entry rs_b" "set ids"] tb le]
      na nb
    by (simp add: skills_match_unfold m)
qed

text \<open>
  C9. Two postings with the same experience requirement, location and salary range, whose
  required skills agree entry by entry except that one skill is tagged \<open>Required\<close> in the
  first and \<open>NiceToHave\<close> in the second: a candidate who does not hold that skill scores no
  more on the \<open>Required\<close> variant than on the \<open>NiceToHave\<close> variant.
\<close>

theorem required_variant_not_above_nice_to_have:
  assumes "query_get jp_id (job_postings db) job_id_a = Some job_a"
      and "query_get jp_id (job_postings db) job_id_b = Some job_b"
      and "jp_experience_required job_a = jp_experience_required job_b"
      and "jp_location job_a = jp_location job_b"
      and "jp_salary_min job_a = jp_salary_min job_b"
      and "jp_salary_max job_a = jp_salary_max job_b"
      and "map skill_entry (required_skills_of db job_id_a) = pre @ [(s, Required)] @ post"
      and "map skill_entry (required_skills_of db job_id_b) = pre @ [(s, NiceToHave)] @ post"
      and "s \<notin> set (candidate_skill_ids_of db candidate_id)"
  shows "calculate_job_match_score db candidate_id job_id_a
           \<le> calculate_job_match_score db candidate_id job_id_b"
proof (cases "query_get cp_id (candidate_profiles db) candidate_id")
  case None
  then show ?thesis by (simp add: calculate_job_match_score_def)
next
  case (Some candidate)
  have e: "experience_match candidate job_a = experience_match candidate job_b"
    using assms(3) by (simp add: experience_match_def)
  have l: "location_match candidate job_a = location_match candidate job_b"
    using assms(4) by (simp add: location_match_def)
  have m: "salary_match candidate job_a = salary_match candidate job_b"
    using assms(5,6) by (simp add: salary_match_def)
  have k: "skills_match (required_skills_of db job_id_a) (candidate_skill_ids_of db candidate_id)
             \<le> skills_match (required_skills_of db job_id_b) (candidate_skill_ids_of db candidate_id)"
    using assms(7,8,9) by (rule skills_match_retag)
  show ?thesis
    using k by (simp add: score_found[OF Some assms(1)] score_found[OF Some assms(2)] e l m)
qed

theorem required_variant_not_above_nice_to_have_witness:
  "calculate_job_match_score example_db 2 20 \<le> calculate_job_match_score example_db 2 21
   \<and> calculate_job_match_score example_db 2 20 = 30
   \<and> calculate_job_match_score example_db 2 21 = 43"
proof -
  have a: "query_get jp_id (job_postings example_db) 20 = Some example_j20" by code_simp
  have b: "query_get jp_id (job_postings example_db) 21 = Some (example_j20\<lparr>jp_id := 21\<rparr>)"
    by code_simp
  have ra: "map skill_entry (required_skills_of example_db 20)
              = [(5, Preferred)] @ [(4, Required)] @ []" by code_simp
  have rb: "map skill_entry (required_skills_of example_db 21)
              = [(5, Preferred)] @ [(4, NiceToHave)] @ []" by code_simp
  have n: "4 \<notin> set (candidate_skill_ids_of example_db 2)" by code_simp
  have "calculate_job_match_score example_db 2 20 \<le> calculate_job_match_score example_db 2 21"
    using required_variant_not_above_nice_to_have[OF a b _ _ _ _ ra rb n] by simp
  moreover have "calculate_job_match_score example_db 2 20 = 30" by code_simp
  moreover have "calculate_job_match_score example_db 2 21 = 43" by code_simp
  ultimately show ?thesis by simp
qed

section \<open>Location and salary\<close>

text \<open>
  C3, as stated, with absence read as \<open>None\<close>: a job paying between 0 and 100 and a candidate
  expecting 50 would earn +10. The code gives 0, because a \<^verbatim>\<open>Decimal\<close> zero is false in
  the guard \<^verbatim>\<open>if candidate.salary_expectation and job.salary_min and job.salary_max\<close>.
\<close>

theorem salary_claim_counterexample:
  "salary_match modest_candidate low_range_job
     \<noteq> salary_spec (cp_salary_expectation modest_candidate)
          (jp_salary_min low_range_job) (jp_salary_max low_range_job)"
proof -
  have a: "salary_match modest_candidate low_range_job = 0" by code_simp
  have b: "salary_spec (cp_salary_expectation modest_candidate)
             (jp_salary_min low_range_job) (jp_salary_max low_range_job) = 10" by code_simp
  show ?thesis by (simp add: a b)
qed

text \<open>
  C3, amended. The salary component is evaluated exactly when the candidate's salary
  expectation and the job's \<open>salaryMin\<close> and \<open>salaryMax\<close> are all present and non-zero; then it
  is +10 when \<open>salaryMin \<le> expectation \<le> salaryMax\<close>, else +5 when
  \<open>expectation \<le> salaryMax \<times> 1.2\<close>, else +0, in exact decimal arithmetic; when one of the three
  is absent or zero it is +0.
\<close>

theorem salary_match_present_nonzero:
  "salary_match candidate job =
     (if cp_salary_expectation candidate \<notin> {None, Some 0}
         \<and> jp_salary_min job \<notin> {None, Some 0}
         \<and> jp_salary_max job \<notin> {None, Some 0}
      then salary_spec (cp_salary_expectation candidate) (jp_salary_min job) (jp_salary_max job)
      else 0)"
  by (simp add: salary_match_def salary_spec_def truthy_decimal_def Let_def split: option.splits)

theorem salary_match_present_nonzero_witness:
  "salary_match example_c1 example_j7 = 10
   \<and> salary_match (example_c1\<lparr>cp_salary_expectation := Some 84000\<rparr>) example_j7 = 5
   \<and> salary_match (example_c1\<lparr>cp_salary_expectation := Some (8400001 / 100)\<rparr>) example_j7 = 0
   \<and> salary_match (example_c1\<lparr>cp_salary_expectation := Some 40000\<rparr>) example_j7 = 5
   \<and> salary_match example_c2 example_j7 = 0
   \<and> salary_match modest_candidate low_range_job = 0"
proof -
  have a: "salary_match example_c1 example_j7 = 10"
    using salary_match_present_nonzero[of example_c1 example_j7]
    by (simp add: example_c1_def example_j7_def salary_spec_def)
  have b: "salary_match (example_c1\<lparr>cp_salary_expectation := Some 84000\<rparr>) example_j7 = 5"
    using salary_match_present_nonzero[of "example_c1\<lparr>cp_salary_expectation := Some 84000\<rparr>" example_j7]
    by (simp add: example_c1_def example_j7_def salary_spec_def)
  have c: "salary_match (example_c1\<lparr>cp_salary_expectation := Some (8400001 / 100)\<rparr>) example_j7 = 0"
    using salary_match_present_nonzero[of "example_c1\<lparr>cp_salary_expectation := Some (8400001 / 100)\<rparr>" example_j7]
    by (simp add: example_c1_def example_j7_def salary_spec_def)
  have d: "salary_match (example_c1\<lparr>cp_salary_expectation := Some 40000\<rparr>) example_j7 = 5"
    using salary_match_present_nonzero[of "example_c1\<lparr>cp_salary_expectation := Some 40000\<rparr>" example_j7]
    by (simp add: example_c1_def example_j7_def salary_spec_def)
  have e: "salary_match example_c2 example_j7 = 0"
    using salary_match_present_nonzero[of example_c2 example_j7]
    by (simp add: example_c2_def)
  have f: "salary_match modest_candidate low_range_job = 0"
    using salary_match_present_nonzero[of modest_candidate low_range_job]
    by (simp add: low_range_job_def)
  show ?thesis using a b c d e f by simp
qed




text \<open>
  C10. Optional fields that are present but falsy count as absent: an empty location string on
  either side makes the location component +0, and a salary expectation, \<open>salaryMin\<close> or
  \<open>salaryMax\<close> equal to 0 makes the salary component +0, whatever the other values are.
\<close>

theorem falsy_fields_score_zero:
  "(cp_location candidate = Some [] \<or> jp_location job = Some [] \<longrightarrow> location_match candidate job = 0)
   \<and> (cp_salary_expectation candidate = Some 0 \<or> jp_salary_min job = Some 0
        \<or> jp_salary_max job = Some 0 \<longrightarrow> salary_match candidate job = 0)"
  by (auto simp add: location_match_def salary_match_def truthy_str_def truthy_decimal_def
        split: option.splits)

theorem falsy_fields_score_zero_witness:
  "location_match example_c1 blank_location_job = 0
   \<and> location_spec (cp_location example_c1) (jp_location blank_location_job) = 10
   \<and> salary_match example_c4 zero_min_job = 0
   \<and> salary_spec (cp_salary_expectation example_c4) (jp_salary_min zero_min_job)
        (jp_salary_max zero_min_job) = 10
   \<and> salary_match (example_c1\<lparr>cp_salary_expectation := Some (- 5)\<rparr>) zero_max_job = 0
   \<and> salary_match (example_c1\<lparr>cp_salary_expectation := Some 0\<rparr>) example_j7 = 0"
proof -
  have a: "location_match example_c1 blank_location_job = 0"
    using falsy_fields_score_zero[of example_c1 blank_location_job]
    by (simp add: blank_location_job_def)
  have b: "location_spec (cp_location example_c1) (jp_location blank_location_job) = 10"
    by code_simp
  have c: "salary_match example_c4 zero_min_job = 0"
    using falsy_fields_score_zero[of example_c4 zero_min_job]
    by (simp add: zero_min_job_def)
  have d: "salary_spec (cp_salary_expectation example_c4) (jp_salary_min zero_min_job)
             (jp_salary_max zero_min_job) = 10" by code_simp
  have e: "salary_match (example_c1\<lparr>cp_salary_expectation := Some (- 5)\<rparr>) zero_max_job = 0"
    using falsy_fields_score_zero[of "example_c1\<lparr>cp_salary_expectation := Some (- 5)\<rparr>" zero_max_job]
    by (simp add: zero_max_job_def)
  have f: "salary_match (example_c1\<lparr>cp_salary_expectation := Some 0\<rparr>) example_j7 = 0"
    using falsy_fields_score_zero[of "example_c1\<lparr>cp_salary_expectation := Some 0\<rparr>" example_j7]
    by simp
  show ?thesis using a b c d e f by simp
qed

section \<open>Recommendations\<close>

lemma available_jobs_of_set:
  "(job, company) \<in> set (available_jobs_of db candidate_id) \<longleftrightarrow>
     job \<in> set (job_postings db) \<and> company \<in> set (companies db)
     \<and> jp_company_id job = co_id company \<and> jp_is_active job
     \<and> jp_id job \<notin> set (applied_job_ids_of db candidate_id)"
  by (auto simp add: available_jobs_of_def)

lemma applied_job_ids_of_set:
  "j \<in> set (applied_job_ids_of db candidate_id) \<longleftrightarrow>
     (\<exists>a \<in> set (job_applications db). ja_candidate_id a = candidate_id \<and> ja_job_id a = j)"
  by (auto simp add: applied_job_ids_of_def)

lemma collect_job_matches_set:
  "m \<in> set (collect_job_matches db candidate_id pairs) \<Longrightarrow>
     (jm_job m, jm_company m) \<in> set pairs
     \<and> jm_match_score m = calculate_job_match_score db candidate_id (jp_id (jm_job m))
     \<and> 30 < jm_match_score m"
proof (induction pairs)
  case Nil
  then show ?case by simp
next
  case (Cons p pairs)
  obtain job company where p: "p = (job, company)" by (cases p)
  show ?case
  proof (cases "30 < calculate_job_match_score db candidate_id (jp_id job)")
    case True
    then show ?thesis using Cons by (auto simp add: p Let_def)
  next
    case False
    then show ?thesis using Cons by (auto simp add: p Let_def)
  qed
qed

lemma sort_by_match_score_set: "set (sort_by_match_score ms) = set ms"
  by (simp add: sort_by_match_score_def)

lemma sort_by_match_score_descending:
  "sorted_wrt (\<ge>) (map jm_match_score (sort_by_match_score ms))"
proof -
  have "sorted (map (\<lambda>m. - jm_match_score m) (sort_by_match_score ms))"
    by (simp add: sort_by_match_score_def)
  then have "sorted_wrt (\<lambda>a b. - jm_match_score a \<le> - jm_match_score b) (sort_by_match_score ms)"
    by (simp add: sorted_map)
  then have "sorted_wrt (\<lambda>a b. jm_match_score b \<le> jm_match_score a) (sort_by_match_score ms)"
    by simp
  then show ?thesis by (simp add: sorted_wrt_map)
qed

lemma recommendations_found:
  "query_get cp_id (candidate_profiles db) candidate_id = Some candidate \<Longrightarrow>
     get_job_recommendations db candidate_id =
       take 10 (sort_by_match_score
                  (collect_job_matches db candidate_id (available_jobs_of db candidate_id)))"
  by (simp add: get_job_recommendations_def Let_def)

lemma recommendations_subset:
  "set (get_job_recommendations db candidate_id)
     \<subseteq> set (collect_job_matches db candidate_id (available_jobs_of db candidate_id))"
proof (cases "query_get cp_id (candidate_profiles db) candidate_id")
  case None
  then show ?thesis by (simp add: get_job_recommendations_def)
next
  case (Some candidate)
  show ?thesis
    using set_take_subset[of 10 "sort_by_match_score
            (collect_job_matches db candidate_id (available_jobs_of db candidate_id))"]
    by (simp add: recommendations_found[OF Some] sort_by_match_score_set)
qed

lemma recommendations_descending:
  "sorted_wrt (\<ge>) (map jm_match_score (get_job_recommendations db candidate_id))"
proof (cases "query_get cp_id (candidate_profiles db) candidate_id")
  case None
  then show ?thesis by (simp add: get_job_recommendations_def)
next
  case (Some candidate)
  have "sorted_wrt (\<ge>) (take 10 (map jm_match_score (sort_by_match_score
            (collect_job_matches db candidate_id (available_jobs_of db candidate_id)))))"
    using sort_by_match_score_descending by (rule sorted_wrt_take)
  then show ?thesis by (simp add: recommendations_found[OF Some] take_map)
qed

text \<open>
  C4. \<^verbatim>\<open>get_job_recommendations\<close> returns the empty list for a candidate id that does not
  resolve. Otherwise every entry is an active posting of the table to which the candidate has
  no application, carries the score of that candidate and posting, which is greater than 30;
  the entries are in descending order of score, and there are at most 10 of them.
\<close>

theorem recommendations_eligible_sorted_top10:
  "(query_get cp_id (candidate_profiles db) candidate_id = None
      \<longrightarrow> get_job_recommendations db candidate_id = [])
   \<and> (\<forall>m \<in> set (get_job_recommendations db candidate_id).
         jm_job m \<in> set (job_postings db)
         \<and> jp_is_active (jm_job m)
         \<and> (\<forall>a \<in> set (job_applications db).
               ja_candidate_id a = candidate_id \<longrightarrow> ja_job_id a \<noteq> jp_id (jm_job m))
         \<and> jm_match_score m = calculate_job_match_score db candidate_id (jp_id (jm_job m))
         \<and> 30 < jm_match_score m)
   \<and> sorted_wrt (\<ge>) (map jm_match_score (get_job_recommendations db candidate_id))
   \<and> length (get_job_recommendations db candidate_id) \<le> 10"
proof (intro conjI ballI impI)
  assume "query_get cp_id (candidate_profiles db) candidate_id = None"
  then show "get_job_recommendations db candidate_id = []"
    by (simp add: get_job_recommendations_def)
next
  fix m assume "m \<in> set (get_job_recommendations db candidate_id)"
  then have "m \<in> set (collect_job_matches db candidate_id (available_jobs_of db candidate_id))"
    using recommendations_subset by blast
  then have c: "(jm_job m, jm_company m) \<in> set (available_jobs_of db candidate_id)"
    and s: "jm_match_score m = calculate_job_match_score db candidate_id (jp_id (jm_job m))"
    and t: "30 < jm_match_score m"
    using collect_job_matches_set by blast+
  show "jm_job m \<in> set (job_postings db)" using c by (simp add: available_jobs_of_set)
  show "jp_is_active (jm_job m)" using c by (simp add: available_jobs_of_set)
  show "jm_match_score m = calculate_job_match_score db candidate_id (jp_id (jm_job m))" by (rule s)
  show "30 < jm_match_score m" by (rule t)
  fix a assume "a \<in> set (job_applications db)" "ja_candidate_id a = candidate_id"
  moreover have "jp_id (jm_job m) \<notin> set (applied_job_ids_of db candidate_id)"
    using c by (simp add: available_jobs_of_set)
  ultimately show "ja_job_id a \<noteq> jp_id (jm_job m)"
    by (auto simp add: applied_job_ids_of_set)
next
  show "sorted_wrt (\<ge>) (map jm_match_score (get_job_recommendations db candidate_id))"
    by (rule recommendations_descending)
next
  show "length (get_job_recommendations db candidate_id) \<le> 10"
    by (simp add: get_job_recommendations_def Let_def split: option.splits)
qed

theorem recommendations_eligible_sorted_top10_witness:
  "get_job_recommendations example_db 99 = []
   \<and> map (\<lambda>m. (jp_id (jm_job m), jm_match_score m)) (get_job_recommendations example_db 1)
       = [(7, 100), (20, 65), (10, 55), (21, 51)]
   \<and> 9 \<notin> set (map (\<lambda>m. jp_id (jm_job m)) (get_job_recommendations example_db 1))
   \<and> sorted_wrt (\<ge>) (map jm_match_score (get_job_recommendations example_db 1))
   \<and> length (get_job_recommendations example_db 1) \<le> 10"
proof -
  have n: "query_get cp_id (candidate_profiles example_db) 99 = None" by code_simp
  have a: "get_job_recommendations example_db 99 = []"
    using recommendations_eligible_sorted_top10[of example_db 99] n by blast
  have r: "map (\<lambda>m. (jp_id (jm_job m), jm_match_score m)) (get_job_recommendations example_db 1)
             = [(7, 100), (20, 65), (10, 55), (21, 51)]" by code_simp
  have app: "\<lparr>ja_job_id = 9, ja_candidate_id = 1\<rparr> \<in> set (job_applications example_db)"
    by (simp add: example_db_def)
  have b: "\<forall>m \<in> set (get_job_recommendations example_db 1). jp_id (jm_job m) \<noteq> 9 \<and> 30 < jm_match_score m"
  proof
    fix m assume m: "m \<in> set (get_job_recommendations example_db 1)"
    have "\<forall>a \<in> set (job_applications example_db).
            ja_candidate_id a = 1 \<longrightarrow> ja_job_id a \<noteq> jp_id (jm_job m)"
      and t: "30 < jm_match_score m"
      using recommendations_eligible_sorted_top10[of example_db 1] m by blast+
    then have "ja_job_id \<lparr>ja_job_id = 9, ja_candidate_id = 1\<rparr> \<noteq> jp_id (jm_job m)"
      using app by fastforce
    then show "jp_id (jm_job m) \<noteq> 9 \<and> 30 < jm_match_score m" using t by simp
  qed
  have c: "sorted_wrt (\<ge>) (map jm_match_score (get_job_recommendations example_db 1))"
    using recommendations_eligible_sorted_top10[of example_db 1] by blast
  have d: "length (get_job_recommendations example_db 1) \<le> 10"
    using recommendations_eligible_sorted_top10[of example_db 1] by blast
  have b': "9 \<notin> set (map (\<lambda>m. jp_id (jm_job m)) (get_job_recommendations example_db 1))"
    using b by auto
  show ?thesis using a r b' c d by blast
qed

section \<open>Match notifications\<close>

lemma create_notification_commits:
  "commits (create_notification commit_error st u t m k a) = Suc (commits st)"
  by (simp add: create_notification_def Let_def split: option.splits)

lemma create_notification_notifications:
  "notifications (create_notification commit_error st u t m k a) =
     (if commit_error (commits st) = None
      then notifications st @ [\<lparr>n_user_id = u, n_title = t, n_message = m,
                                 n_notification_type = k, n_action_url = a\<rparr>]
      else notifications st)"
  by (simp add: create_notification_def Let_def split: option.splits)

lemma create_notification_log:
  "logger (create_notification commit_error st u t m k a) =
     logger st @ [log_of_commit commit_error (commits st)
                 \<lparr>n_user_id = u, n_title = t, n_message = m,
                  n_notification_type = k, n_action_url = a\<rparr>]"
  by (simp add: create_notification_def log_of_commit_def Let_def split: option.splits)

lemma emit_all_commits:
  "commits (emit_all commit_error st ns) = commits st + length ns"
  by (induction ns arbitrary: st) (simp_all add: create_notification_commits)

lemma emit_all_notifications:
  "notifications (emit_all commit_error st ns) =
     notifications st
     @ map snd (filter (\<lambda>(k, n). commit_error k = None) (enumerate (commits st) ns))"
  by (induction ns arbitrary: st)
     (simp_all add: create_notification_commits create_notification_notifications)

lemma emit_all_log:
  "logger (emit_all commit_error st ns) =
     logger st @ map (\<lambda>(k, n). log_of_commit commit_error k n) (enumerate (commits st) ns)"
  by (induction ns arbitrary: st)
     (simp_all add: create_notification_commits create_notification_log log_of_commit_def
        split: option.splits)


lemma notify_candidates_emit_all:
  "notify_candidates commit_error db job job_id st cs =
     emit_all commit_error st
       (map (match_notification db job job_id)
          (filter (\<lambda>candidate. 70 \<le> calculate_job_match_score db (cp_id candidate) job_id) cs))"
  by (induction cs arbitrary: st) (simp_all add: Let_def match_notification_def)

lemma notify_found:
  "query_get jp_id (job_postings db) job_id = Some job \<Longrightarrow>
     notify_matching_candidates commit_error db st job_id =
       emit_all commit_error st
         (map (match_notification db job job_id) (matching_candidates db job_id))"
  by (simp add: notify_matching_candidates_def notify_candidates_emit_all matching_candidates_def)




text \<open>
  C8. Whatever commits fail during a batch, \<^verbatim>\<open>notify_matching_candidates\<close> returns, having
  attempted one commit for every matching candidate: the events whose commit succeeded are
  stored, each failed commit leaves one error record in the log and nothing else, and the
  candidates after a failure are still scored and notified.
\<close>

theorem sink_failure_isolated:
  assumes "query_get jp_id (job_postings db) job_id = Some job"
  shows "commits (notify_matching_candidates commit_error db st job_id)
           = commits st + length (matching_candidates db job_id)
         \<and> notifications (notify_matching_candidates commit_error db st job_id)
           = notifications st
             @ map snd (filter (\<lambda>(k, n). commit_error k = None)
                          (enumerate (commits st)
                             (map (match_notification db job job_id)
                                (matching_candidates db job_id))))
         \<and> logger (notify_matching_candidates commit_error db st job_id)
           = logger st
             @ map (\<lambda>(k, n). log_of_commit commit_error k n)
                 (enumerate (commits st)
                    (map (match_notification db job job_id) (matching_candidates db job_id)))"
  by (simp add: notify_found[OF assms] emit_all_commits emit_all_notifications emit_all_log)

theorem sink_failure_isolated_witness:
  "commits (notify_matching_candidates first_commit_fails example_db empty_sink 7) = 2
   \<and> notifications (notify_matching_candidates first_commit_fails example_db empty_sink 7)
       = [match_notification example_db example_j7 7 example_c4]
   \<and> logger (notify_matching_candidates first_commit_fails example_db empty_sink 7)
       = [LogError ''Error creating notification: connection lost'',
          LogInfo ''Notification created for user 14: New Job Match!'']"
proof -
  have j: "query_get jp_id (job_postings example_db) 7 = Some example_j7" by code_simp
  have m: "matching_candidates example_db 7 = [example_c1, example_c4]" by code_simp
  have f0: "first_commit_fails 0 = Some ''connection lost''" by (simp add: first_commit_fails_def)
  have f1: "first_commit_fails (Suc 0) = None" by (simp add: first_commit_fails_def)
  have u: "n_user_id (match_notification example_db example_j7 7 example_c4) = 14"
    by (simp add: match_notification_def example_c4_def)
  have t: "n_title (match_notification example_db example_j7 7 example_c4) = ''New Job Match!''"
    by (simp add: match_notification_def)
  have s14: "str_int 14 = ''14''" by code_simp
  show ?thesis
    using sink_failure_isolated[OF j, of first_commit_fails empty_sink]
    by (simp add: m empty_sink_def f0 f1 log_of_commit_def u t s14)
qed

end
